theory Spec2Isabelle
  imports Complex_Main "HOL-Library.Char_ord" "HOL-Library.List_Lexorder"
    "HOL-Library.Product_Lexorder" "HOL-Library.Log_Nat"
begin

section \<open>Python strings\<close>

text \<open>
  Strings are lists of 8-bit characters; the model covers ASCII text, on which
  \<open>str.lower\<close>, \<open>str.strip\<close>, \<open>str.isalnum\<close> and the regular expression
  \<open>\d\<close> act as defined here, and on which \<open>str.encode()\<close> is the identity.
\<close>

definition lower_char :: "char \<Rightarrow> char" where
  "lower_char c =
     (let n = (of_char c :: nat) in if 65 \<le> n \<and> n \<le> 90 then char_of (n + 32) else c)"

definition lower :: "string \<Rightarrow> string" where
  "lower s = map lower_char s"

definition is_space :: "char \<Rightarrow> bool" where
  "is_space c = (let n = (of_char c :: nat) in n = 32 \<or> (9 \<le> n \<and> n \<le> 13) \<or> (28 \<le> n \<and> n \<le> 31))"

definition strip :: "string \<Rightarrow> string" where
  "strip s = rev (dropWhile is_space (rev (dropWhile is_space s)))"

definition is_digit :: "char \<Rightarrow> bool" where
  "is_digit c = (let n = (of_char c :: nat) in 48 \<le> n \<and> n \<le> 57)"

definition is_alnum :: "char \<Rightarrow> bool" where
  "is_alnum c =
     (let n = (of_char c :: nat)
      in (48 \<le> n \<and> n \<le> 57) \<or> (65 \<le> n \<and> n \<le> 90) \<or> (97 \<le> n \<and> n \<le> 122))"

text \<open>\<open>sep.join(xs)\<close>\<close>

fun join :: "string \<Rightarrow> string list \<Rightarrow> string" where
  "join sep [] = []"
| "join sep [x] = x"
| "join sep (x # y # ys) = x @ sep @ join sep (y # ys)"

text \<open>\<open>kw in text\<close>: \<open>kw\<close> occurs in \<open>text\<close> as a contiguous substring.\<close>

fun starts_with :: "string \<Rightarrow> string \<Rightarrow> bool" where
  "starts_with [] t = True"
| "starts_with (k # ks) [] = False"
| "starts_with (k # ks) (c # cs) = (k = c \<and> starts_with ks cs)"

fun str_in :: "string \<Rightarrow> string \<Rightarrow> bool" where
  "str_in kw [] = (kw = [])"
| "str_in kw (c # cs) = (starts_with kw (c # cs) \<or> str_in kw cs)"

text \<open>\<open>sum(1 for kw in kws if kw in text)\<close>\<close>

definition count_matches :: "string list \<Rightarrow> string \<Rightarrow> nat" where
  "count_matches kws text = length (filter (\<lambda>kw. str_in kw text) kws)"

text \<open>\<open>any(term in text for term in terms)\<close>\<close>

definition any_in :: "string list \<Rightarrow> string \<Rightarrow> bool" where
  "any_in terms text = list_ex (\<lambda>t. str_in t text) terms"

section \<open>Python floats\<close>

text \<open>
  A Python float is an IEEE 754 double and is modelled by its exact rational value.
  \<open>fl\<close> rounds a rational to the nearest double, a tie going to the even mantissa, as
  the literal of a constant and every arithmetic operation do; doubles beyond the
  largest finite one (infinities, NaN) are outside the model.
\<close>

definition pow2 :: "int \<Rightarrow> rat" where
  "pow2 e = (if 0 \<le> e then 2 ^ nat e else 1 / 2 ^ nat (- e))"

text \<open>The binary exponent \<open>e\<close> of a positive rational: \<open>2^e \<le> a < 2^(e+1)\<close>.\<close>

definition exponent_of :: "rat \<Rightarrow> int" where
  "exponent_of a =
     (case quotient_of a of (p, q) \<Rightarrow>
        let d = bitlen p - bitlen q in if pow2 d \<le> a then d else d - 1)"

text \<open>To the nearest integer, a tie going to the even one.\<close>

definition round_half_even :: "rat \<Rightarrow> int" where
  "round_half_even x =
     (let f = \<lfloor>x\<rfloor>; d = x - of_int f
      in if d < 1 / 2 then f else if 1 / 2 < d then f + 1 else if even f then f else f + 1)"

text \<open>
  A mantissa of 53 bits; below \<open>2^(-1022)\<close> the spacing stays \<open>2^(-1074)\<close>
  (subnormal numbers).
\<close>

definition fl :: "rat \<Rightarrow> rat" where
  "fl x =
     (if x = 0 then 0
      else let a = \<bar>x\<bar>;
               s = max (exponent_of a - 52) (- 1074);
               m = round_half_even (a / pow2 s)
           in sgn x * of_int m * pow2 s)"

text \<open>\<open>a * b\<close>, \<open>a + b\<close> and \<open>a - b\<close> on floats.\<close>

definition fmul :: "rat \<Rightarrow> rat \<Rightarrow> rat" where
  "fmul a b = fl (a * b)"

definition fadd :: "rat \<Rightarrow> rat \<Rightarrow> rat" where
  "fadd a b = fl (a + b)"

definition fsub :: "rat \<Rightarrow> rat \<Rightarrow> rat" where
  "fsub a b = fl (a - b)"

text \<open>
  \<open>round(x, 1)\<close> on a float: the exact value of \<open>x\<close> is rounded to the nearest
  tenth, a tie going to the even tenth, and the result is the double nearest to that
  tenth.
\<close>

definition round1 :: "rat \<Rightarrow> rat" where
  "round1 x = fl (of_int (round_half_even (x * 10)) / 10)"

section \<open>Job opportunities\<close>

text \<open>The dataclass \<open>JobOpportunity\<close> of job_discovery_engine.py.\<close>

record JobOpportunity =
  title :: string
  company :: string
  location :: string
  salary_range :: "string option"
  job_type :: string
  source :: string
  discovered_at :: string
  url :: string
  job_id :: string
  description :: string
  requirements :: "string list"
  technologies :: "string list"
  relevance_score :: rat
  priority_score :: rat
  transition_score_of_job :: rat
  status :: string
  ai_analysis :: "(string \<times> string) list option"
  application_package :: "string option"

section \<open>Scoring engine (intelligent_filter.py)\<close>

record ScoringResult =
  overall_score :: rat
  confidence_level :: rat
  technical_score :: rat
  transition_score :: rat
  culture_score :: rat
  growth_score :: rat
  compensation_score :: rat
  reasoning :: string
  action_recommendation :: string
  keywords_matched :: "string list"
  red_flags :: "string list"

definition ai_keywords :: "string list" where
  "ai_keywords =
     [''machine learning'', ''ml'', ''artificial intelligence'', ''ai'', ''deep learning'',
      ''neural networks'', ''tensorflow'', ''pytorch'', ''scikit-learn'', ''pandas'',
      ''numpy'', ''data science'', ''nlp'', ''computer vision'', ''automation'',
      ''python'', ''jupyter'', ''model deployment'', ''mlops'', ''data pipeline'']"

definition infrastructure_keywords :: "string list" where
  "infrastructure_keywords =
     [''kubernetes'', ''docker'', ''aws'', ''azure'', ''gcp'', ''terraform'', ''ansible'',
      ''jenkins'', ''ci/cd'', ''devops'', ''monitoring'', ''prometheus'', ''grafana'',
      ''linux'', ''bash'', ''networking'', ''security'', ''sre'', ''site reliability'']"

definition growth_keywords :: "string list" where
  "growth_keywords =
     [''startup'', ''scale-up'', ''learning'', ''mentorship'', ''training'',
      ''conference budget'', ''education'', ''certification'', ''career development'',
      ''advancement'', ''leadership'', ''team lead'', ''senior'', ''principal'']"

definition red_flag_keywords :: "string list" where
  "red_flag_keywords =
     [''unpaid'', ''volunteer'', ''commission only'', ''no benefits'',
      ''long hours'', ''weekend work'', ''on-call 24/7'', ''toxic'',
      ''high pressure'', ''fast-paced environment'']"

text \<open>
  The dictionary \<open>scoring_weights\<close>, one constant per key: the doubles of the
  literals 0.40, 0.25, 0.20, 0.10 and 0.05.
\<close>

definition w_technical :: rat where "w_technical = fl (40 / 100)"
definition w_transition :: rat where "w_transition = fl (25 / 100)"
definition w_culture :: rat where "w_culture = fl (20 / 100)"
definition w_growth :: rat where "w_growth = fl (10 / 100)"
definition w_compensation :: rat where "w_compensation = fl (5 / 100)"

definition scoring_weights :: "(string \<times> rat) list" where
  "scoring_weights =
     [(''technical'', w_technical), (''transition'', w_transition), (''culture'', w_culture),
      (''growth'', w_growth), (''compensation'', w_compensation)]"

text \<open>
  The scorers below multiply and add small multiples of one half, which doubles do
  exactly.
\<close>

definition score_technical_relevance :: "string \<Rightarrow> rat" where
  "score_technical_relevance job_text =
     (let ai_matches = count_matches ai_keywords job_text;
          infra_matches = count_matches infrastructure_keywords job_text;
          ai_score = min (of_nat ai_matches * (3 / 2)) 7;
          infra_bonus = min (of_nat infra_matches * (1 / 2)) 3
      in min (ai_score + infra_bonus) 10)"

definition transition_terms :: "string list" where
  "transition_terms =
     [''junior'', ''associate'', ''entry'', ''transition'', ''bootcamp'',
      ''new grad'', ''career change'', ''infrastructure'', ''devops to ai'']"

definition senior_but_open :: "string list" where
  "senior_but_open =
     [''senior devops'', ''senior infrastructure'', ''platform engineer'',
      ''data platform'', ''ml platform'', ''ai platform'']"

definition score_transition_fit :: "string \<Rightarrow> string \<Rightarrow> rat" where
  "score_transition_fit job_text job_title =
     (let title_lower = lower job_title
      in if any_in [''principal'', ''staff'', ''lead''] title_lower \<and>
            \<not> any_in [''infrastructure'', ''platform'', ''devops''] title_lower
         then 3
         else if any_in transition_terms job_text then 9
         else if any_in senior_but_open job_text then 8
         else 6)"

definition positive_culture :: "string list" where
  "positive_culture =
     [''learning'', ''growth'', ''mentorship'', ''collaboration'',
      ''work-life balance'', ''flexible'', ''remote'', ''innovative'']"

definition negative_culture :: "string list" where
  "negative_culture = [''fast-paced'', ''high pressure'', ''long hours'', ''weekend work'']"

definition score_company_culture :: "string \<Rightarrow> rat" where
  "score_company_culture job_text =
     (let positive_score = 2 * count_matches positive_culture job_text;
          negative_penalty = count_matches negative_culture job_text;
          base_score = 5 + of_nat positive_score - of_nat negative_penalty
      in max (min base_score 10) 1)"

definition score_growth_potential :: "string \<Rightarrow> rat" where
  "score_growth_potential job_text =
     (let growth_indicators = count_matches growth_keywords job_text
      in if 3 \<le> growth_indicators then 9 else if 1 \<le> growth_indicators then 7 else 5)"

text \<open>\<open>re.findall(r'\d+', s)\<close>: the maximal runs of digits, left to right.\<close>

fun digit_runs_aux :: "string \<Rightarrow> string \<Rightarrow> string list" where
  "digit_runs_aux cur [] = (if cur = [] then [] else [rev cur])"
| "digit_runs_aux cur (c # cs) =
     (if is_digit c then digit_runs_aux (c # cur) cs
      else if cur = [] then digit_runs_aux [] cs
      else rev cur # digit_runs_aux [] cs)"

definition digit_runs :: "string \<Rightarrow> string list" where
  "digit_runs s = digit_runs_aux [] s"

text \<open>\<open>int(num)\<close> on a string of decimal digits.\<close>

definition int_of_digits :: "string \<Rightarrow> nat" where
  "int_of_digits s = foldl (\<lambda>acc c. 10 * acc + (of_char c - 48)) 0 s"

definition score_compensation :: "string option \<Rightarrow> string \<Rightarrow> rat" where
  "score_compensation salary job_text =
     (case salary of
        None \<Rightarrow> 5
      | Some sr \<Rightarrow>
          if sr = [] then 5
          else
            let numbers = digit_runs (filter (\<lambda>c. c \<noteq> CHR '','') sr);
                valid_numbers = map int_of_digits (filter (\<lambda>num. 4 \<le> length num) numbers)
            in if valid_numbers = [] then 5
               else
                 let max_salary = fold max valid_numbers 0
                 in if 120000 \<le> max_salary then 8
                    else if 90000 \<le> max_salary then 6
                    else if 60000 \<le> max_salary then 4
                    else 2)"

text \<open>The text scored by the rule-based path: title, description, requirements, technologies.\<close>

definition job_text_of :: "JobOpportunity \<Rightarrow> string" where
  "job_text_of job =
     lower (title job @ '' '' @ description job @ '' '' @ join '' '' (requirements job)
            @ '' '' @ join '' '' (technologies job))"

text \<open>The weighted sum, products first, added from left to right.\<close>

definition weighted_overall :: "rat \<Rightarrow> rat \<Rightarrow> rat \<Rightarrow> rat \<Rightarrow> rat \<Rightarrow> rat" where
  "weighted_overall t tr c g cp =
     fadd (fadd (fadd (fadd (fmul t w_technical) (fmul tr w_transition)) (fmul c w_culture))
             (fmul g w_growth))
       (fmul cp w_compensation)"

definition recommendation_of :: "rat \<Rightarrow> string" where
  "recommendation_of overall =
     (if 8 \<le> overall then ''APPLY - High-priority opportunity''
      else if 6 \<le> overall then ''RESEARCH - Investigate further''
      else ''PASS - Focus on higher-scoring opportunities'')"

text \<open>
  \<open>_fallback_score_opportunity\<close>. The \<open>reasoning\<close> text formats floats and is kept as
  its fixed prefix.
\<close>

definition fallback_score_opportunity :: "JobOpportunity \<Rightarrow> ScoringResult" where
  "fallback_score_opportunity job =
     (let job_text = job_text_of job;
          technical = score_technical_relevance job_text;
          transition = score_transition_fit job_text (title job);
          culture = score_company_culture job_text;
          growth = score_growth_potential job_text;
          compensation = score_compensation (salary_range job) job_text;
          overall = weighted_overall technical transition culture growth compensation;
          matched = filter (\<lambda>kw. str_in kw job_text) (ai_keywords @ infrastructure_keywords);
          flags = filter (\<lambda>flag. str_in flag job_text) red_flag_keywords
      in \<lparr> overall_score = round1 overall,
           confidence_level = fl (6 / 10),
           technical_score = technical,
           transition_score = transition,
           culture_score = culture,
           growth_score = growth,
           compensation_score = compensation,
           reasoning = ''Rule-based analysis'',
           action_recommendation = recommendation_of overall,
           keywords_matched = take 10 matched,
           red_flags = flags \<rparr>)"

text \<open>
  The AI path. \<open>json.loads\<close> is a library function and a parameter of the model;
  its result is the decoded object restricted to the keys the code reads, each carrying
  the type the dataclass declares (\<open>None\<close> for an absent key). A result of
  \<open>None\<close> stands for \<open>json.loads\<close> raising.
\<close>

record ai_data =
  ad_technical_score :: "rat option"
  ad_transition_score :: "rat option"
  ad_culture_score :: "rat option"
  ad_growth_score :: "rat option"
  ad_compensation_score :: "rat option"
  ad_confidence :: "rat option"
  ad_keywords_matched :: "string list option"
  ad_red_flags :: "string list option"
  ad_reasoning :: "string option"
  ad_recommendation :: "string option"

text \<open>\<open>d.get(key, default)\<close>\<close>

definition get_or :: "'a option \<Rightarrow> 'a \<Rightarrow> 'a" where
  "get_or v d = (case v of None \<Rightarrow> d | Some x \<Rightarrow> x)"

text \<open>\<open>s.find(c)\<close> and \<open>s.rfind(c)\<close>: the index, or \<open>-1\<close>.\<close>

fun find_char :: "char \<Rightarrow> string \<Rightarrow> int" where
  "find_char c [] = -1"
| "find_char c (x # xs) =
     (if x = c then 0 else (let r = find_char c xs in if r < 0 then -1 else r + 1))"

definition rfind_char :: "char \<Rightarrow> string \<Rightarrow> int" where
  "rfind_char c s =
     (let r = find_char c (rev s) in if r < 0 then -1 else int (length s) - 1 - r)"

text \<open>\<open>s[a:b]\<close>, negative indices counting from the end.\<close>

definition py_slice :: "string \<Rightarrow> int \<Rightarrow> int \<Rightarrow> string" where
  "py_slice s a b =
     (let n = int (length s);
          a' = (if a < 0 then max 0 (n + a) else min a n);
          b' = (if b < 0 then max 0 (n + b) else min b n)
      in take (nat (b' - a')) (drop (nat a') s))"

text \<open>
  \<open>_parse_ai_response\<close>: a response of \<open>None\<close> (no content) or an undecodable one
  raises inside the \<open>try\<close> and the rule-based score is returned.
\<close>

definition parse_ai_response ::
  "(string \<Rightarrow> ai_data option) \<Rightarrow> string option \<Rightarrow> JobOpportunity \<Rightarrow> ScoringResult" where
  "parse_ai_response json_loads ai_response job =
     (case ai_response of
        None \<Rightarrow> fallback_score_opportunity job
      | Some resp \<Rightarrow>
          let json_start = find_char (CHR ''{'') resp;
              json_end = rfind_char (CHR ''}'') resp + 1;
              json_str = py_slice resp json_start json_end
          in case json_loads json_str of
               None \<Rightarrow> fallback_score_opportunity job
             | Some d \<Rightarrow>
                 let overall =
                       weighted_overall (get_or (ad_technical_score d) 5)
                         (get_or (ad_transition_score d) 5) (get_or (ad_culture_score d) 5)
                         (get_or (ad_growth_score d) 5) (get_or (ad_compensation_score d) 5)
                 in \<lparr> overall_score = round1 overall,
                      confidence_level = get_or (ad_confidence d) (fl (8 / 10)),
                      technical_score = get_or (ad_technical_score d) 5,
                      transition_score = get_or (ad_transition_score d) 5,
                      culture_score = get_or (ad_culture_score d) 5,
                      growth_score = get_or (ad_growth_score d) 5,
                      compensation_score = get_or (ad_compensation_score d) 5,
                      reasoning = get_or (ad_reasoning d) ''AI analysis completed'',
                      action_recommendation = get_or (ad_recommendation d) ''RESEARCH'',
                      keywords_matched = get_or (ad_keywords_matched d) [],
                      red_flags = get_or (ad_red_flags d) [] \<rparr>)"

text \<open>
  The filter object: \<open>fallback_mode\<close> and whether \<open>client\<close> is set. The outcome of the
  completion request is a parameter: \<open>Inl\<close> when the request raises, otherwise the
  content of the first choice.
\<close>

record IntelligentFilter =
  fallback_mode :: bool
  has_client :: bool

definition ai_score_opportunity ::
  "(string \<Rightarrow> ai_data option) \<Rightarrow> (string + string option) \<Rightarrow> JobOpportunity \<Rightarrow> ScoringResult" where
  "ai_score_opportunity json_loads completion job =
     (case completion of
        Inl e \<Rightarrow> fallback_score_opportunity job
      | Inr content \<Rightarrow> parse_ai_response json_loads content job)"

definition score_opportunity ::
  "IntelligentFilter \<Rightarrow> (string \<Rightarrow> ai_data option) \<Rightarrow> (string + string option)
     \<Rightarrow> JobOpportunity \<Rightarrow> ScoringResult" where
  "score_opportunity flt json_loads completion job =
     (if \<not> fallback_mode flt \<and> has_client flt
      then ai_score_opportunity json_loads completion job
      else fallback_score_opportunity job)"

text \<open>
  \<open>rank_opportunities\<close>. Every \<open>JobOpportunity\<close> has the attribute
  \<open>discovered_at\<close>, so \<open>hasattr\<close> holds of each. \<open>sorted\<close> is a stable sort
  on the key, as \<open>sort_key\<close> is.
\<close>

definition has_discovered_at :: "JobOpportunity \<Rightarrow> bool" where
  "has_discovered_at job = True"

definition primary_score :: "ScoringResult \<Rightarrow> rat" where
  "primary_score score =
     (let p0 = overall_score score;
          p1 = (if fl (8 / 10) < confidence_level score \<and> 7 \<le> technical_score score
                then fadd p0 (fl (5 / 10)) else p0);
          p2 = (if 8 \<le> transition_score score then fadd p1 (fl (3 / 10)) else p1);
          p3 = (if red_flags score \<noteq> []
                then fsub p2 (fmul (of_nat (length (red_flags score))) (fl (2 / 10))) else p2)
      in p3)"

definition ranking_key :: "JobOpportunity \<times> ScoringResult \<Rightarrow> rat" where
  "ranking_key job_score_pair =
     (case job_score_pair of (job, score) \<Rightarrow>
        let recency_bonus = (if has_discovered_at job then fl (1 / 100) else 0)
        in - fadd (primary_score score) recency_bonus)"

definition rank_opportunities ::
  "(JobOpportunity \<times> ScoringResult) list \<Rightarrow> (JobOpportunity \<times> ScoringResult) list" where
  "rank_opportunities jobs_with_scores = sort_key ranking_key jobs_with_scores"

subsection \<open>Sample inputs of the scoring engine\<close>

definition sample_job :: JobOpportunity where
  "sample_job = \<lparr> title = ''Engineer'', company = ''Acme'', location = ''Remote'',
     salary_range = None, job_type = ''full-time'', source = ''indeed'',
     discovered_at = ''2024-01-01T00:00:00'', url = ''https://acme.example/jobs/1'',
     job_id = ''000000000000'',
     description = ''tensorflow pytorch pandas numpy jupyter'', requirements = [],
     technologies = [],
     relevance_score = 0, priority_score = 0, transition_score_of_job = 0,
     status = ''discovered'', ai_analysis = None, application_package = None \<rparr>"

definition dq :: char where "dq = CHR 0x22"

definition no_ai_data :: ai_data where
  "no_ai_data = \<lparr> ad_technical_score = None, ad_transition_score = None,
     ad_culture_score = None, ad_growth_score = None, ad_compensation_score = None,
     ad_confidence = None, ad_keywords_matched = None, ad_red_flags = None,
     ad_reasoning = None, ad_recommendation = None \<rparr>"

definition ai_filter :: IntelligentFilter where
  "ai_filter = \<lparr> fallback_mode = False, has_client = True \<rparr>"

text \<open>A response whose JSON object gives \<open>technical_score\<close> 50, and its decoding.\<close>

definition high_response :: string where
  "high_response = ''Scores: {'' @ [dq] @ ''technical_score'' @ [dq] @ '': 50} as requested''"

definition high_loads :: "string \<Rightarrow> ai_data option" where
  "high_loads s =
     (if s = ''{'' @ [dq] @ ''technical_score'' @ [dq] @ '': 50}''
      then Some (no_ai_data \<lparr> ad_technical_score := Some 50 \<rparr>) else None)"


subsection \<open>Sample inputs of the ranking\<close>

definition older_job :: JobOpportunity where
  "older_job = sample_job \<lparr> discovered_at := ''2024-01-01T00:00:00'' \<rparr>"

definition newer_job :: JobOpportunity where
  "newer_job = sample_job \<lparr> discovered_at := ''2024-03-01T00:00:00'', job_id := ''000000000002'' \<rparr>"

definition tie_score :: ScoringResult where
  "tie_score = \<lparr> overall_score = 7, confidence_level = fl (6 / 10), technical_score = 7,
     transition_score = 6, culture_score = 5, growth_score = 5, compensation_score = 5,
     reasoning = ''Rule-based analysis'', action_recommendation = ''RESEARCH - Investigate further'',
     keywords_matched = [], red_flags = [] \<rparr>"

definition flagged_score :: ScoringResult where
  "flagged_score = tie_score \<lparr> red_flags := [''unpaid'', ''toxic''] \<rparr>"

section \<open>Python exceptions\<close>

text \<open>
  The exceptions the model distinguishes, each with its message; \<open>Exception\<close> stands
  for any other exception derived from \<open>Exception\<close>, such as an error of the HTTP
  client or of the file system.
\<close>

datatype exn = ValueError string | AttributeError string | Exception string

section \<open>Deduplication (job_discovery_engine.py)\<close>

text \<open>The similarity key of \<open>_deduplicate_jobs\<close>.\<close>

definition dedup_key :: "JobOpportunity \<Rightarrow> string" where
  "dedup_key job = strip (lower (title job)) @ ''_'' @ strip (lower (company job))"

text \<open>\<open>source_priority.get(source, 0)\<close>\<close>

definition source_priority :: "string \<Rightarrow> nat" where
  "source_priority s =
     (case map_of [(''linkedin'', 3), (''indeed'', 2), (''company'', 1), (''hn_jobs'', 1)] s of
        None \<Rightarrow> 0 | Some p \<Rightarrow> p)"

text \<open>\<open>xs.remove(x)\<close>: drops the first element equal to \<open>x\<close>, raises when there is none.\<close>

definition list_remove :: "'a list \<Rightarrow> 'a \<Rightarrow> exn + 'a list" where
  "list_remove xs x =
     (if x \<in> set xs then Inr (remove1 x xs) else Inl (ValueError ''list.remove(x): x not in list''))"

text \<open>One turn of the loop, on the dictionary \<open>seen_jobs\<close> and the list \<open>unique_jobs\<close>.\<close>

fun dedup_step ::
  "JobOpportunity \<Rightarrow> (string \<rightharpoonup> JobOpportunity) \<times> JobOpportunity list
     \<Rightarrow> exn + ((string \<rightharpoonup> JobOpportunity) \<times> JobOpportunity list)" where
  "dedup_step job (seen_jobs, unique_jobs) =
     (let key = dedup_key job
      in if seen_jobs key = None
         then Inr (seen_jobs(key \<mapsto> job), unique_jobs @ [job])
         else
           let existing_job = the (seen_jobs key)
           in if source_priority (source existing_job) < source_priority (source job)
              then (case list_remove unique_jobs existing_job of
                      Inl e \<Rightarrow> Inl e
                    | Inr removed \<Rightarrow> Inr (seen_jobs(key \<mapsto> job), removed @ [job]))
              else Inr (seen_jobs, unique_jobs))"

fun dedup_loop ::
  "JobOpportunity list \<Rightarrow> (string \<rightharpoonup> JobOpportunity) \<times> JobOpportunity list
     \<Rightarrow> exn + ((string \<rightharpoonup> JobOpportunity) \<times> JobOpportunity list)" where
  "dedup_loop [] st = Inr st"
| "dedup_loop (job # jobs) st =
     (case dedup_step job st of Inl e \<Rightarrow> Inl e | Inr st' \<Rightarrow> dedup_loop jobs st')"

definition deduplicate_jobs :: "JobOpportunity list \<Rightarrow> exn + JobOpportunity list" where
  "deduplicate_jobs jobs =
     (case dedup_loop jobs (Map.empty, []) of Inl e \<Rightarrow> Inl e | Inr (seen_jobs, unique_jobs) \<Rightarrow> Inr unique_jobs)"

subsection \<open>Sample inputs of the deduplication\<close>

text \<open>Two postings of one job, differing in case and surrounding blanks, from two sources.\<close>

definition linkedin_job :: JobOpportunity where
  "linkedin_job = sample_job \<lparr> title := ''ML Engineer '', source := ''linkedin'', job_id := ''000000000003'' \<rparr>"

definition indeed_job :: JobOpportunity where
  "indeed_job = sample_job \<lparr> title := ''ml engineer'', company := '' ACME'', source := ''indeed'', job_id := ''000000000004'' \<rparr>"

text \<open>
  The loop invariant: the keys of \<open>unique_jobs\<close> are distinct and \<open>seen_jobs\<close>
  maps each of them to its posting, and nothing else.
\<close>

definition dedup_inv :: "(string \<rightharpoonup> JobOpportunity) \<times> JobOpportunity list \<Rightarrow> bool" where
  "dedup_inv st =
     (distinct (map dedup_key (snd st)) \<and>
      (\<forall>k j. fst st k = Some j \<longrightarrow> j \<in> set (snd st) \<and> dedup_key j = k) \<and>
      (\<forall>j \<in> set (snd st). fst st (dedup_key j) = Some j))"

text \<open>A posting is covered by a list that holds one of the same key and of no lower priority.\<close>

definition covered :: "JobOpportunity \<Rightarrow> JobOpportunity list \<Rightarrow> bool" where
  "covered j unique_jobs =
     (\<exists>r \<in> set unique_jobs. dedup_key r = dedup_key j \<and>
        source_priority (source j) \<le> source_priority (source r))"

section \<open>Job database (job_discovery_engine.py)\<close>

text \<open>
  The table \<open>job_opportunities\<close>: its rows in the order of their rowids. A row holds
  the columns that \<open>_row_to_job\<close> reads back as a \<open>JobOpportunity\<close> (lists and the
  analysis go through \<open>json.dumps\<close> and \<open>json.loads\<close> unchanged) and the column
  \<open>created_at\<close>, filled with the time of the insertion. The column \<open>job_id\<close> is the
  primary key.
\<close>

record db_row =
  row_job :: JobOpportunity
  row_created_at :: string

type_synonym job_table = "db_row list"

text \<open>
  The values bound by \<open>save_job\<close>: an empty analysis is falsy and stored as NULL, as
  \<open>None\<close> is.
\<close>

definition row_of :: "string \<Rightarrow> JobOpportunity \<Rightarrow> db_row" where
  "row_of now job =
     \<lparr> row_job = job \<lparr> ai_analysis := (if ai_analysis job = Some [] then None else ai_analysis job) \<rparr>,
       row_created_at = now \<rparr>"

text \<open>
  \<open>INSERT OR REPLACE\<close>: a row with the same primary key is deleted before the new
  row is inserted.
\<close>

definition insert_or_replace :: "db_row \<Rightarrow> job_table \<Rightarrow> job_table" where
  "insert_or_replace r tbl =
     filter (\<lambda>r'. job_id (row_job r') \<noteq> job_id (row_job r)) tbl @ [r]"

text \<open>
  \<open>save_job\<close>. \<open>sqlite_ok\<close> tells whether the connection and the statement go
  through; when they raise, the exception is caught, nothing is written and the result
  is \<open>False\<close>. \<open>now\<close> is \<open>CURRENT_TIMESTAMP\<close>.
\<close>

definition save_job :: "bool \<Rightarrow> string \<Rightarrow> JobOpportunity \<Rightarrow> job_table \<Rightarrow> bool \<times> job_table" where
  "save_job sqlite_ok now job tbl =
     (if sqlite_ok then (True, insert_or_replace (row_of now job) tbl) else (False, tbl))"

text \<open>
  \<open>ORDER BY relevance_score DESC, discovered_at DESC\<close>, the text column compared
  byte by byte. Rows that agree on both columns come in an order SQL leaves open; the
  model keeps them in storage order.
\<close>

definition order_by_score_and_time :: "db_row list \<Rightarrow> db_row list" where
  "order_by_score_and_time rows =
     rev (sort_key (\<lambda>r. (relevance_score (row_job r), discovered_at (row_job r))) (rev rows))"

text \<open>
  \<open>get_jobs_by_status\<close>: \<open>LIMIT\<close> is appended only when \<open>limit\<close> is truthy, and
  SQLite reads a negative limit as no limit. When the query raises, the result is the
  empty list.
\<close>

definition get_jobs_by_status ::
  "bool \<Rightarrow> string \<Rightarrow> int option \<Rightarrow> job_table \<Rightarrow> JobOpportunity list" where
  "get_jobs_by_status sqlite_ok st limit tbl =
     (if sqlite_ok
      then let rows = order_by_score_and_time (filter (\<lambda>r. status (row_job r) = st) tbl);
               limited = (case limit of
                            None \<Rightarrow> rows
                          | Some n \<Rightarrow> if n = 0 then rows else if n < 0 then rows
                                      else take (nat n) rows)
           in map row_job limited
      else [])"

subsection \<open>Sample inputs of the database\<close>

definition scored_older :: JobOpportunity where
  "scored_older = sample_job \<lparr> job_id := ''aaaaaaaaaaa1'', relevance_score := 8,
     discovered_at := ''2024-01-01T00:00:00'' \<rparr>"

definition scored_newer :: JobOpportunity where
  "scored_newer = sample_job \<lparr> job_id := ''aaaaaaaaaaa2'', relevance_score := 8,
     discovered_at := ''2024-03-01T00:00:00'' \<rparr>"

definition rescored_older :: JobOpportunity where
  "rescored_older = scored_older \<lparr> relevance_score := 9, status := ''applied'' \<rparr>"

definition two_rows :: job_table where
  "two_rows = [row_of ''2024-04-01 10:00:00'' scored_older, row_of ''2024-04-01 10:00:01'' scored_newer]"

section \<open>Parallel AI engine (parallel_ai_engine.py)\<close>

text \<open>
  The dataclass \<open>SophisticatedApplicationPackage\<close>.
\<close>

record SophisticatedApplicationPackage =
  pkg_job_title :: string
  pkg_company_name :: string
  application_date :: string
  executive_summary :: string
  cover_letter :: string
  strategic_positioning :: string
  interview_preparation :: string
  success_strategy :: string
  company_intelligence :: string
  competitive_analysis :: string
  technical_alignment :: string
  career_narrative :: string
  generation_time :: rat
  sophistication_score :: rat
  personalization_depth :: rat
  strategic_insight_score :: rat
  parallel_efficiency :: rat
  api_calls_made :: nat
  optimization_level :: string

text \<open>
  The outcome of the completion request made for a task: \<open>Inl\<close> when the request
  raises (network failure, timeout, revoked credential), otherwise the content of the
  first choice, which may be \<open>None\<close>. One run makes one request per task, so the
  behaviour of the API in a run is a function from task names to outcomes. Only
  exceptions derived from \<open>Exception\<close> are modelled.
\<close>

type_synonym completion = "exn + string option"

definition fallback_text :: "string \<Rightarrow> string" where
  "fallback_text task_name = ''['' @ task_name @ '' generation failed - implementing fallback strategy]''"

text \<open>
  \<open>_sophisticated_gpt4_call\<close>, on the counter \<open>api_calls_made\<close>: the whole body is
  inside \<open>try\<close>, so a raising request, and a content of \<open>None\<close> (on which
  \<open>strip\<close> raises after the counter was incremented), both give the fallback text.
\<close>

definition sophisticated_gpt4_call :: "completion \<Rightarrow> string \<Rightarrow> nat \<Rightarrow> string \<times> nat" where
  "sophisticated_gpt4_call outcome task_name calls =
     (case outcome of
        Inl e \<Rightarrow> (fallback_text task_name, calls)
      | Inr None \<Rightarrow> (fallback_text task_name, calls + 1)
      | Inr (Some content) \<Rightarrow> (strip content, calls + 1))"

text \<open>The dictionary returned by \<open>_parallel_deep_research_phase\<close>.\<close>

record research =
  r_company_intelligence :: string
  r_competitive_analysis :: string
  r_technical_alignment :: string
  r_strategic_positioning :: string

text \<open>
  \<open>asyncio.gather\<close> returns the results in the order of the tasks, whatever the order
  in which they complete; no task raises, so the phase always returns. The tasks touch
  nothing but the counter, and the sum of their increments does not depend on the
  interleaving; the model runs them in the order of the list.
\<close>

definition parallel_deep_research_phase :: "(string \<Rightarrow> completion) \<Rightarrow> nat \<Rightarrow> research \<times> nat" where
  "parallel_deep_research_phase api calls =
     (let (company_intel, c1) = sophisticated_gpt4_call (api ''company_intelligence'') ''company_intelligence'' calls;
          (competitive, c2) = sophisticated_gpt4_call (api ''competitive_analysis'') ''competitive_analysis'' c1;
          (technical, c3) = sophisticated_gpt4_call (api ''technical_alignment'') ''technical_alignment'' c2;
          (strategic, c4) = sophisticated_gpt4_call (api ''strategic_positioning'') ''strategic_positioning'' c3
      in (\<lparr> r_company_intelligence = company_intel, r_competitive_analysis = competitive,
             r_technical_alignment = technical, r_strategic_positioning = strategic \<rparr>, c4))"

text \<open>The dictionary returned by \<open>_parallel_sophisticated_content_generation\<close>.\<close>

record content_suite =
  c_cover_letter :: string
  c_executive_summary :: string
  c_interview_preparation :: string
  c_success_strategy :: string
  c_career_narrative :: string

definition parallel_sophisticated_content_generation ::
  "(string \<Rightarrow> completion) \<Rightarrow> nat \<Rightarrow> content_suite \<times> nat" where
  "parallel_sophisticated_content_generation api calls =
     (let (letter, c1) = sophisticated_gpt4_call (api ''sophisticated_cover_letter'') ''sophisticated_cover_letter'' calls;
          (summary, c2) = sophisticated_gpt4_call (api ''executive_summary'') ''executive_summary'' c1;
          (prep, c3) = sophisticated_gpt4_call (api ''advanced_interview_prep'') ''advanced_interview_prep'' c2;
          (strategy, c4) = sophisticated_gpt4_call (api ''success_strategy'') ''success_strategy'' c3;
          (narrative, c5) = sophisticated_gpt4_call (api ''career_narrative'') ''career_narrative'' c4
      in (\<lparr> c_cover_letter = letter, c_executive_summary = summary,
             c_interview_preparation = prep, c_success_strategy = strategy,
             c_career_narrative = narrative \<rparr>, c5))"

text \<open>\<open>a / b\<close> on floats, for a divisor other than zero.\<close>

definition fdiv :: "rat \<Rightarrow> rat \<Rightarrow> rat" where
  "fdiv a b = fl (a / b)"

text \<open>
  \<open>_integrate_sophisticated_application\<close>; \<open>elapsed\<close> is the time since the start
  of the run and \<open>today\<close> the date.
\<close>

definition integrate_sophisticated_application ::
  "string \<Rightarrow> string \<Rightarrow> research \<Rightarrow> content_suite \<Rightarrow> rat \<Rightarrow> string \<Rightarrow> nat
     \<Rightarrow> SophisticatedApplicationPackage" where
  "integrate_sophisticated_application job_title company_name res content elapsed today calls =
     \<lparr> pkg_job_title = job_title,
       pkg_company_name = company_name,
       application_date = today,
       executive_summary = c_executive_summary content,
       cover_letter = c_cover_letter content,
       strategic_positioning = r_strategic_positioning res,
       interview_preparation = c_interview_preparation content,
       success_strategy = c_success_strategy content,
       company_intelligence = r_company_intelligence res,
       competitive_analysis = r_competitive_analysis res,
       technical_alignment = r_technical_alignment res,
       career_narrative = c_career_narrative content,
       generation_time = elapsed,
       sophistication_score = fl (95 / 10),
       personalization_depth = fl (98 / 10),
       strategic_insight_score = fl (96 / 10),
       parallel_efficiency = fsub 1 (fdiv elapsed 105),
       api_calls_made = calls,
       optimization_level = ''MAXIMUM_SOPHISTICATION'' \<rparr>"

text \<open>
  \<open>generate_sophisticated_application\<close>: the research phase, then the content phase,
  then the assembly; the progress messages are left out. The result is the package and
  the new value of the counter.
\<close>

definition generate_sophisticated_application ::
  "string \<Rightarrow> string \<Rightarrow> (string \<Rightarrow> completion) \<Rightarrow> rat \<Rightarrow> string \<Rightarrow> nat
     \<Rightarrow> SophisticatedApplicationPackage \<times> nat" where
  "generate_sophisticated_application job_title company_name api elapsed today calls =
     (let (research_intelligence, c1) = parallel_deep_research_phase api calls;
          (suite, c2) = parallel_sophisticated_content_generation api c1
      in (integrate_sophisticated_application job_title company_name research_intelligence suite
            elapsed today c2, c2))"

text \<open>The tasks of the two phases, and the field of the package that holds a task's result.\<close>

definition research_tasks :: "string list" where
  "research_tasks =
     [''company_intelligence'', ''competitive_analysis'', ''technical_alignment'',
      ''strategic_positioning'']"

definition content_tasks :: "string list" where
  "content_tasks =
     [''sophisticated_cover_letter'', ''executive_summary'', ''advanced_interview_prep'',
      ''success_strategy'', ''career_narrative'']"

definition task_field :: "string \<Rightarrow> SophisticatedApplicationPackage \<Rightarrow> string" where
  "task_field task_name pkg =
     (if task_name = ''company_intelligence'' then company_intelligence pkg
      else if task_name = ''competitive_analysis'' then competitive_analysis pkg
      else if task_name = ''technical_alignment'' then technical_alignment pkg
      else if task_name = ''strategic_positioning'' then strategic_positioning pkg
      else if task_name = ''sophisticated_cover_letter'' then cover_letter pkg
      else if task_name = ''executive_summary'' then executive_summary pkg
      else if task_name = ''advanced_interview_prep'' then interview_preparation pkg
      else if task_name = ''success_strategy'' then success_strategy pkg
      else career_narrative pkg)"

text \<open>What a task contributes, as a function of the outcome of its own request only.\<close>

definition task_result :: "completion \<Rightarrow> string \<Rightarrow> string" where
  "task_result outcome task_name =
     (case outcome of
        Inl e \<Rightarrow> fallback_text task_name
      | Inr None \<Rightarrow> fallback_text task_name
      | Inr (Some content) \<Rightarrow> strip content)"

subsection \<open>Sample inputs of the parallel engine\<close>

text \<open>A run in which the request of \<open>technical_alignment\<close> times out and all others answer.\<close>

definition one_failure_api :: "string \<Rightarrow> completion" where
  "one_failure_api task_name =
     (if task_name = ''technical_alignment'' then Inl (Exception ''Request timed out.'')
      else Inr (Some ('' analysis of '' @ task_name @ '' '')))"

section \<open>Application engine (main_application_engine.py)\<close>

text \<open>
  The dictionary \<open>job_data\<close>: keys in order of insertion, a value of \<open>None\<close> as
  \<open>None\<close>. \<open>d.get(k, default)\<close> gives the stored value, which may be \<open>None\<close>.
\<close>

type_synonym job_dict = "(string \<times> string option) list"

definition dict_get :: "job_dict \<Rightarrow> string \<Rightarrow> string option \<Rightarrow> string option" where
  "dict_get d k dflt = (case map_of d k of None \<Rightarrow> dflt | Some v \<Rightarrow> v)"

text \<open>Truth value of an optional string and of an optional dictionary.\<close>

definition truthy_str :: "string option \<Rightarrow> bool" where
  "truthy_str s = (case s of None \<Rightarrow> False | Some v \<Rightarrow> v \<noteq> [])"

definition truthy_dict :: "job_dict option \<Rightarrow> bool" where
  "truthy_dict d = (case d of None \<Rightarrow> False | Some v \<Rightarrow> v \<noteq> [])"

text \<open>
  The attributes of \<open>ApplicationEngine\<close> that select the path. An attribute that holds a
  collaborator is modelled by its presence: \<open>has_template_components\<close> stands for
  \<open>company_researcher\<close>, \<open>resume_engine\<close> and \<open>cover_letter_generator\<close>, which are
  set together. The tracking dictionary \<open>applications\<close> and \<open>output_dir\<close> are left out.
\<close>

record ApplicationEngine =
  api_key :: "string option"
  has_parallel_ai_engine :: bool
  has_ai_engine :: bool
  has_template_components :: bool
  ai_mode :: bool
  parallel_mode :: bool

text \<open>
  \<open>__init__\<close>; \<open>found\<close> is what \<open>find_openai_api_key()\<close> returns (the environment
  variable, then the two \<open>.env\<close> files, else \<open>None\<close>). The constructor sets
  \<open>parallel_ai_engine\<close> or the three template components, and never \<open>ai_engine\<close>.
  Creating the output directory and the collaborators is taken not to raise.
\<close>

definition init :: "string option \<Rightarrow> string option \<Rightarrow> ApplicationEngine" where
  "init openai_api_key found =
     (let key = (if truthy_str openai_api_key then openai_api_key else found)
      in if truthy_str key
         then \<lparr> api_key = key, has_parallel_ai_engine = True, has_ai_engine = False,
                has_template_components = False, ai_mode = True, parallel_mode = True \<rparr>
         else \<lparr> api_key = key, has_parallel_ai_engine = False, has_ai_engine = False,
                has_template_components = True, ai_mode = False, parallel_mode = False \<rparr>)"

text \<open>
  What the collaborators and the environment do in one call of
  \<open>process_job_application\<close>: the clock, and for each path the outcome of the
  generation and the outcome of writing the files and printing the summary.
  \<open>parallel_generation\<close> is the outcome of
  \<open>loop.run_until_complete(generate_sophisticated_application(...))\<close>;
  \<open>ai_generation\<close> the \<open>ai_quality_score\<close> of the package of
  \<open>generate_ai_application\<close>; \<open>template_components\<close> the score computed from the
  results of the three template components; the exports give the files written.
\<close>

record world =
  now_isoformat :: string
  now_stamp :: string
  parallel_generation :: "exn + SophisticatedApplicationPackage"
  parallel_export :: "exn + string"
  ai_generation :: "exn + rat"
  ai_export :: "exn + string"
  template_components :: "exn + rat"
  template_export :: "exn + string list"

text \<open>
  The dictionary returned as the application package, with the keys on which the paths
  differ: \<open>mode\<close> and \<open>parallel_ai_application\<close> are \<open>None\<close> when the dictionary has
  no such key. The texts under \<open>next_steps\<close>, \<open>performance_metrics\<close> and the
  collaborators' dictionaries are left out.
\<close>

record ApplicationPackage =
  application_id :: string
  generated_at :: string
  job_information :: job_dict
  application_score :: rat
  files_generated :: "string list"
  mode :: "string option"
  parallel_ai_application :: "SophisticatedApplicationPackage option"

text \<open>
  \<open>_generate_application_id\<close>; \<open>replace\<close> on a company stored as \<open>None\<close> raises.
  The quotation marks of Python's messages are left out.
\<close>

definition generate_application_id :: "job_dict \<Rightarrow> string \<Rightarrow> exn + string" where
  "generate_application_id job_data stamp =
     (case dict_get job_data ''company'' (Some ''unknown'') of
        None \<Rightarrow> Inl (AttributeError ''NoneType object has no attribute replace'')
      | Some company_str \<Rightarrow>
          Inr (filter (\<lambda>c. is_alnum c \<or> c = CHR ''_'')
                 (map (\<lambda>c. if c = CHR '' '' \<or> c = CHR ''-'' then CHR ''_'' else c) company_str)
               @ ''_'' @ stamp))"

text \<open>\<open>_scrape_job_posting\<close> is not implemented and returns \<open>None\<close>.\<close>

definition scrape_job_posting :: "string \<Rightarrow> job_dict option" where
  "scrape_job_posting job_url = None"

text \<open>Step 1 of \<open>process_job_application\<close>: the job data to work on.\<close>

definition gather_job_data ::
  "string option \<Rightarrow> job_dict option \<Rightarrow> string option \<Rightarrow> string option \<Rightarrow> exn + job_dict option" where
  "gather_job_data job_url job_data company_name job_title =
     (if truthy_dict job_data then Inr job_data
      else if truthy_str job_url then Inr (scrape_job_posting (the job_url))
      else if truthy_str company_name \<and> truthy_str job_title
      then Inr (Some [(''title'', job_title),
                      (''company'', company_name),
                      (''description'',
                         Some (''Manually entered position: '' @ the job_title @ '' at ''
                                 @ the company_name)),
                      (''url'', None)])
      else Inl (ValueError ''Must provide either job_url, job_data, or company_name + job_title''))"

text \<open>
  \<open>_process_with_ai_engine\<close>: reading \<open>self.ai_engine\<close> raises when the attribute is not
  set; nothing is caught here.
\<close>

definition process_with_ai_engine ::
  "ApplicationEngine \<Rightarrow> world \<Rightarrow> job_dict \<Rightarrow> exn + ApplicationPackage option" where
  "process_with_ai_engine eng w job_data =
     (if \<not> has_ai_engine eng
      then Inl (AttributeError ''ApplicationEngine object has no attribute ai_engine'')
      else case ai_generation w of
        Inl e \<Rightarrow> Inl e
      | Inr ai_quality_score \<Rightarrow>
          (case generate_application_id job_data (now_stamp w) of
             Inl e \<Rightarrow> Inl e
           | Inr app_id \<Rightarrow>
               (case ai_export w of
                  Inl e \<Rightarrow> Inl e
                | Inr ai_file \<Rightarrow>
                    Inr (Some \<lparr> application_id = app_id,
                                 generated_at = now_isoformat w,
                                 job_information = job_data,
                                 application_score = ai_quality_score,
                                 files_generated = [ai_file],
                                 mode = Some ''AI_POWERED'',
                                 parallel_ai_application = None \<rparr>))))"

text \<open>The body of the \<open>try\<close> of \<open>_process_with_parallel_ai_engine\<close>.\<close>

definition parallel_attempt ::
  "ApplicationEngine \<Rightarrow> world \<Rightarrow> job_dict \<Rightarrow> exn + ApplicationPackage" where
  "parallel_attempt eng w job_data =
     (if \<not> has_parallel_ai_engine eng
      then Inl (AttributeError ''ApplicationEngine object has no attribute parallel_ai_engine'')
      else case parallel_generation w of
        Inl e \<Rightarrow> Inl e
      | Inr parallel_application \<Rightarrow>
          (case generate_application_id job_data (now_stamp w) of
             Inl e \<Rightarrow> Inl e
           | Inr app_id \<Rightarrow>
               (case parallel_export w of
                  Inl e \<Rightarrow> Inl e
                | Inr sophisticated_file \<Rightarrow>
                    Inr \<lparr> application_id = app_id,
                           generated_at = now_isoformat w,
                           job_information = job_data,
                           application_score = sophistication_score parallel_application,
                           files_generated = [sophisticated_file],
                           mode = Some ''SOPHISTICATED_PARALLEL_AI'',
                           parallel_ai_application = Some parallel_application \<rparr>)))"

text \<open>
  \<open>_process_with_parallel_ai_engine\<close>: \<open>except Exception\<close> hands the job to
  \<open>_process_with_ai_engine\<close>, outside of any \<open>try\<close>.
\<close>

definition process_with_parallel_ai_engine ::
  "ApplicationEngine \<Rightarrow> world \<Rightarrow> job_dict \<Rightarrow> exn + ApplicationPackage option" where
  "process_with_parallel_ai_engine eng w job_data =
     (case parallel_attempt eng w job_data of
        Inr package \<Rightarrow> Inr (Some package)
      | Inl e \<Rightarrow> process_with_ai_engine eng w job_data)"

text \<open>
  \<open>_process_with_template_mode\<close> with \<open>_create_application_package\<close>, whose dictionary
  has no key \<open>mode\<close>; nothing is caught.
\<close>

definition process_with_template_mode ::
  "ApplicationEngine \<Rightarrow> world \<Rightarrow> job_dict \<Rightarrow> exn + ApplicationPackage option" where
  "process_with_template_mode eng w job_data =
     (if \<not> has_template_components eng
      then Inl (AttributeError ''ApplicationEngine object has no attribute company_researcher'')
      else case template_components w of
        Inl e \<Rightarrow> Inl e
      | Inr template_score \<Rightarrow>
          (case generate_application_id job_data (now_stamp w) of
             Inl e \<Rightarrow> Inl e
           | Inr app_id \<Rightarrow>
               (case template_export w of
                  Inl e \<Rightarrow> Inl e
                | Inr files \<Rightarrow>
                    Inr (Some \<lparr> application_id = app_id,
                                 generated_at = now_isoformat w,
                                 job_information = job_data,
                                 application_score = template_score,
                                 files_generated = files,
                                 mode = None,
                                 parallel_ai_application = None \<rparr>))))"

text \<open>\<open>process_job_application\<close>; the result \<open>Inr None\<close> is the return value \<open>None\<close>.\<close>

definition process_job_application ::
  "ApplicationEngine \<Rightarrow> world \<Rightarrow> string option \<Rightarrow> job_dict option \<Rightarrow> string option
     \<Rightarrow> string option \<Rightarrow> exn + ApplicationPackage option" where
  "process_job_application eng w job_url job_data company_name job_title =
     (case gather_job_data job_url job_data company_name job_title of
        Inl e \<Rightarrow> Inl e
      | Inr gathered \<Rightarrow>
          if \<not> truthy_dict gathered then Inr None
          else if ai_mode eng \<and> parallel_mode eng
               then process_with_parallel_ai_engine eng w (the gathered)
          else if ai_mode eng then process_with_ai_engine eng w (the gathered)
          else process_with_template_mode eng w (the gathered))"

subsection \<open>Sample inputs of the application engine\<close>





section \<open>Properties of the scoring engine\<close>


lemma transition_bounds: "3 \<le> score_transition_fit s t \<and> score_transition_fit s t \<le> 9"
  by (simp add: score_transition_fit_def Let_def)

lemma culture_bounds: "1 \<le> score_company_culture s \<and> score_company_culture s \<le> 10"
  by (simp add: score_company_culture_def Let_def)

lemma growth_bounds: "5 \<le> score_growth_potential s \<and> score_growth_potential s \<le> 9"
  by (simp add: score_growth_potential_def Let_def)

lemma compensation_bounds: "2 \<le> score_compensation sr s \<and> score_compensation sr s \<le> 8"
  by (simp add: score_compensation_def Let_def split: option.splits)



text \<open>The five weights, added as doubles in the order of the dictionary, give exactly 1.\<close>

lemma weights_sum: "foldl fadd 0 (map snd scoring_weights) = 1"
  by code_simp

text \<open>
  C4, at a reply of the completion API whose JSON object gives \<open>technical_score\<close> 50:
  \<open>_parse_ai_response\<close> weights the scores of the reply as they come, and the
  \<open>overall_score\<close> returned by \<open>score_opportunity\<close> is 23.0, outside \<open>[0, 10]\<close>.
\<close>

theorem score_overall_out_of_range:
  "overall_score (score_opportunity ai_filter high_loads (Inr (Some high_response)) sample_job) = 23
   \<and> \<not> overall_score (score_opportunity ai_filter high_loads (Inr (Some high_response)) sample_job) \<le> 10"
proof -
  have "overall_score (score_opportunity ai_filter high_loads (Inr (Some high_response)) sample_job) = 23"
    by code_simp
  then show ?thesis by simp
qed








section \<open>Properties of the ranking\<close>

lemma rank_sorted: "sorted (map ranking_key (rank_opportunities xs))"
  by (simp add: rank_opportunities_def)

lemma rank_same_elements:
  "set (rank_opportunities xs) = set xs \<and> length (rank_opportunities xs) = length xs"
  by (simp add: rank_opportunities_def)

lemma rank_stable:
  "filter (\<lambda>p. ranking_key p = k) (rank_opportunities xs) = filter (\<lambda>p. ranking_key p = k) xs"
  by (simp add: rank_opportunities_def sort_key_stable)

text \<open>The keys of the sample pairs, as doubles.\<close>

lemma ranking_keys:
  "ranking_key (older_job, tie_score) = - (3946279173483397 / 562949953421312)"
  "ranking_key (newer_job, tie_score) = - (3946279173483397 / 562949953421312)"
  "ranking_key (older_job, flagged_score) = - (465137399014359 / 70368744177664)"
  by code_simp+

text \<open>The example of the claim: equal overall scores, two red flags against none.\<close>

lemma rank_red_flag_example:
  "rank_opportunities [(older_job, flagged_score), (newer_job, tie_score)] =
     [(newer_job, tie_score), (older_job, flagged_score)] \<and>
   rank_opportunities [(newer_job, tie_score), (older_job, flagged_score)] =
     [(newer_job, tie_score), (older_job, flagged_score)]"
  by (simp add: rank_opportunities_def ranking_keys)

text \<open>
  C6, at two postings of equal adjusted score: the bonus of 0.01 is the same for every
  posting, so the key does not look at \<open>discovered_at\<close>, and the stable sort keeps
  the older posting, given first, ahead of the newer one. The claim asks for the newer
  one first.
\<close>

theorem rank_ties_keep_input_order:
  "discovered_at older_job < discovered_at newer_job \<and>
   primary_score tie_score = 7 \<and>
   rank_opportunities [(older_job, tie_score), (newer_job, tie_score)] =
     [(older_job, tie_score), (newer_job, tie_score)]"
proof -
  have d: "discovered_at older_job < discovered_at newer_job" by code_simp
  have p: "primary_score tie_score = 7" by code_simp
  have r: "rank_opportunities [(older_job, tie_score), (newer_job, tie_score)] =
     [(older_job, tie_score), (newer_job, tie_score)]"
    by (simp add: rank_opportunities_def ranking_keys)
  show ?thesis using d p r by simp
qed

section \<open>Properties of the deduplication\<close>

lemma dedup_invD1: "dedup_inv (s, u) \<Longrightarrow> distinct (map dedup_key u)"
  unfolding dedup_inv_def fst_conv snd_conv by blast

lemma dedup_invD2: "dedup_inv (s, u) \<Longrightarrow> s k = Some j \<Longrightarrow> j \<in> set u \<and> dedup_key j = k"
  unfolding dedup_inv_def fst_conv snd_conv by blast

lemma dedup_invD3: "dedup_inv (s, u) \<Longrightarrow> j \<in> set u \<Longrightarrow> s (dedup_key j) = Some j"
  unfolding dedup_inv_def fst_conv snd_conv by blast

lemma dedup_invI:
  assumes "distinct (map dedup_key u)"
    and "\<And>k j. s k = Some j \<Longrightarrow> j \<in> set u \<and> dedup_key j = k"
    and "\<And>j. j \<in> set u \<Longrightarrow> s (dedup_key j) = Some j"
  shows "dedup_inv (s, u)"
  unfolding dedup_inv_def fst_conv snd_conv using assms by blast

lemma coveredI:
  "r \<in> set u \<Longrightarrow> dedup_key r = dedup_key j \<Longrightarrow>
   source_priority (source j) \<le> source_priority (source r) \<Longrightarrow> covered j u"
  unfolding covered_def by blast

lemma distinct_map_snoc:
  assumes "distinct (map f xs)" and "\<And>x. x \<in> set xs \<Longrightarrow> f x \<noteq> f a"
  shows "distinct (map f (xs @ [a]))"
proof -
  have "f a \<notin> f ` set xs" using assms(2) by (metis imageE)
  then show ?thesis using assms(1) by simp
qed

lemma dedup_step_ok:
  assumes inv: "dedup_inv (seen, uniq)"
  shows "\<exists>seen' uniq'. dedup_step job (seen, uniq) = Inr (seen', uniq') \<and>
           dedup_inv (seen', uniq') \<and> set uniq' \<subseteq> insert job (set uniq) \<and>
           (\<forall>j \<in> insert job (set uniq). covered j uniq')"
proof (cases "seen (dedup_key job)")
  case None
  let ?seen' = "seen(dedup_key job \<mapsto> job)"
  let ?uniq' = "uniq @ [job]"
  have nk: "\<And>j. j \<in> set uniq \<Longrightarrow> dedup_key j \<noteq> dedup_key job"
    using dedup_invD3[OF inv] None by (metis option.distinct(1))
  have st: "dedup_step job (seen, uniq) = Inr (?seen', ?uniq')"
    using None by (simp only: dedup_step.simps Let_def simp_thms if_True)
  have d: "distinct (map dedup_key ?uniq')"
    using dedup_invD1[OF inv] nk by (rule distinct_map_snoc)
  have i2: "\<And>k j. ?seen' k = Some j \<Longrightarrow> j \<in> set ?uniq' \<and> dedup_key j = k"
    using dedup_invD2[OF inv] by (simp only: fun_upd_apply set_append split: if_splits) auto
  have i3: "\<And>j. j \<in> set ?uniq' \<Longrightarrow> ?seen' (dedup_key j) = Some j"
    using dedup_invD3[OF inv] nk by (simp only: fun_upd_apply set_append split: if_splits) auto
  have inv': "dedup_inv (?seen', ?uniq')" by (rule dedup_invI[OF d i2 i3])
  have cov: "\<forall>j \<in> insert job (set uniq). covered j ?uniq'"
  proof
    fix j assume "j \<in> insert job (set uniq)"
    then have "j \<in> set ?uniq'" by simp
    then show "covered j ?uniq'" by (rule coveredI) simp_all
  qed
  have sub: "set ?uniq' \<subseteq> insert job (set uniq)" by auto
  show ?thesis using st inv' sub cov by blast
next
  case (Some e)
  have e: "e \<in> set uniq" "dedup_key e = dedup_key job"
    using dedup_invD2[OF inv Some] by blast+
  have d: "distinct (map dedup_key uniq)" by (rule dedup_invD1[OF inv])
  then have du: "distinct uniq" by (rule distinct_map[THEN iffD1, THEN conjunct1])
  have inj: "inj_on dedup_key (set uniq)" using d by (rule distinct_map[THEN iffD1, THEN conjunct2])
  have only: "\<And>j. j \<in> set uniq \<Longrightarrow> dedup_key j = dedup_key job \<Longrightarrow> j = e"
    using inj e by (metis inj_onD)
  show ?thesis
  proof (cases "source_priority (source e) < source_priority (source job)")
    case True
    let ?seen' = "seen(dedup_key job \<mapsto> job)"
    let ?uniq' = "remove1 e uniq @ [job]"
    have lr: "list_remove uniq e = Inr (remove1 e uniq)"
      using e(1) by (simp only: list_remove_def if_True)
    have st: "dedup_step job (seen, uniq) = Inr (?seen', ?uniq')"
      using Some True lr
      by (simp only: dedup_step.simps Let_def option.sel option.distinct simp_thms if_False if_True sum.case)
    have sr: "set (remove1 e uniq) = set uniq - {e}" using du by (rule set_remove1_eq)
    have nk: "\<And>j. j \<in> set (remove1 e uniq) \<Longrightarrow> dedup_key j \<noteq> dedup_key job"
      using only sr by blast
    have dk: "distinct (map dedup_key (remove1 e uniq))"
      using d by (metis distinct_map distinct_remove1 inj_on_subset set_remove1_subset)
    have d': "distinct (map dedup_key ?uniq')"
      using dk nk by (rule distinct_map_snoc)
    have i2: "\<And>k j. ?seen' k = Some j \<Longrightarrow> j \<in> set ?uniq' \<and> dedup_key j = k"
    proof -
      fix k j assume a: "?seen' k = Some j"
      show "j \<in> set ?uniq' \<and> dedup_key j = k"
      proof (cases "k = dedup_key job")
        case True
        with a have "j = job" by simp
        then show ?thesis using True by simp
      next
        case False
        with a have sk: "seen k = Some j" by simp
        from dedup_invD2[OF inv sk] have "j \<in> set uniq" "dedup_key j = k" by blast+
        moreover have "j \<noteq> e" using \<open>dedup_key j = k\<close> False e(2) by blast
        ultimately show ?thesis using sr by simp
      qed
    qed
    have i3: "\<And>j. j \<in> set ?uniq' \<Longrightarrow> ?seen' (dedup_key j) = Some j"
    proof -
      fix j assume "j \<in> set ?uniq'"
      then consider "j = job" | "j \<in> set (remove1 e uniq)" by auto
      then show "?seen' (dedup_key j) = Some j"
      proof cases
        case 1 then show ?thesis by simp
      next
        case 2
        then have "j \<in> set uniq" using sr by blast
        from dedup_invD3[OF inv this] nk[OF 2] show ?thesis by simp
      qed
    qed
    have inv': "dedup_inv (?seen', ?uniq')" by (rule dedup_invI[OF d' i2 i3])
    have cov: "\<forall>j \<in> insert job (set uniq). covered j ?uniq'"
    proof
      fix j assume j: "j \<in> insert job (set uniq)"
      show "covered j ?uniq'"
      proof (cases "j = job \<or> j = e")
        case True
        have "job \<in> set ?uniq'" by simp
        then show ?thesis using True e(2) \<open>source_priority (source e) < source_priority (source job)\<close>
          by (intro coveredI[of job]) auto
      next
        case False
        then have "j \<in> set ?uniq'" using j sr by simp
        then show ?thesis by (rule coveredI) simp_all
      qed
    qed
    have sub: "set ?uniq' \<subseteq> insert job (set uniq)" using sr by auto
    show ?thesis using st inv' sub cov by blast
  next
    case False
    have st: "dedup_step job (seen, uniq) = Inr (seen, uniq)"
      using Some False
      by (simp only: dedup_step.simps Let_def option.sel option.distinct simp_thms if_False)
    have cov: "\<forall>j \<in> insert job (set uniq). covered j uniq"
    proof
      fix j assume j: "j \<in> insert job (set uniq)"
      show "covered j uniq"
      proof (cases "j = job")
        case True
        show ?thesis using e False True by (intro coveredI[of e]) auto
      next
        case False
        then have "j \<in> set uniq" using j by simp
        then show ?thesis by (rule coveredI) simp_all
      qed
    qed
    show ?thesis using st inv cov by blast
  qed
qed

lemma covered_trans:
  assumes "covered j u" and "\<forall>r \<in> set u. covered r u'"
  shows "covered j u'"
proof -
  from assms(1) obtain r where r: "r \<in> set u" "dedup_key r = dedup_key j"
    "source_priority (source j) \<le> source_priority (source r)"
    unfolding covered_def by blast
  from assms(2) r(1) have "covered r u'" by blast
  then obtain r' where r': "r' \<in> set u'" "dedup_key r' = dedup_key r"
    "source_priority (source r) \<le> source_priority (source r')"
    unfolding covered_def by blast
  have "dedup_key r' = dedup_key j" using r(2) r'(2) by (rule_tac trans)
  moreover have "source_priority (source j) \<le> source_priority (source r')"
    using r(3) r'(3) by (rule order_trans)
  ultimately show ?thesis using r'(1) by (rule_tac coveredI)
qed

lemma dedup_loop_ok:
  assumes "dedup_inv (seen, uniq)"
  shows "\<exists>seen' uniq'. dedup_loop jobs (seen, uniq) = Inr (seen', uniq') \<and>
           dedup_inv (seen', uniq') \<and> set uniq' \<subseteq> set jobs \<union> set uniq \<and>
           (\<forall>j \<in> set jobs \<union> set uniq. covered j uniq')"
  using assms
proof (induction jobs arbitrary: seen uniq)
  case Nil
  have "\<forall>j \<in> set uniq. covered j uniq"
  proof
    fix j assume "j \<in> set uniq"
    then show "covered j uniq" by (rule coveredI) simp_all
  qed
  then show ?case using Nil by (simp only: dedup_loop.simps list.set Un_empty_left) blast
next
  case (Cons job jobs)
  from dedup_step_ok[OF Cons.prems, of job] obtain seen1 uniq1 where
    s1: "dedup_step job (seen, uniq) = Inr (seen1, uniq1)" and
    i1: "dedup_inv (seen1, uniq1)" and
    sub1: "set uniq1 \<subseteq> insert job (set uniq)" and
    cov1: "\<forall>j \<in> insert job (set uniq). covered j uniq1" by blast
  from Cons.IH[OF i1] obtain seen' uniq' where
    l: "dedup_loop jobs (seen1, uniq1) = Inr (seen', uniq')" and
    i': "dedup_inv (seen', uniq')" and
    sub': "set uniq' \<subseteq> set jobs \<union> set uniq1" and
    cov': "\<forall>j \<in> set jobs \<union> set uniq1. covered j uniq'" by blast
  have eq: "dedup_loop (job # jobs) (seen, uniq) = Inr (seen', uniq')"
    using s1 l by (simp only: dedup_loop.simps sum.case)
  have sub: "set uniq' \<subseteq> set (job # jobs) \<union> set uniq"
    using sub' sub1 by (simp only: list.set) blast
  have cov: "\<forall>j \<in> set (job # jobs) \<union> set uniq. covered j uniq'"
  proof
    fix j assume "j \<in> set (job # jobs) \<union> set uniq"
    then have "j \<in> set jobs \<or> j \<in> insert job (set uniq)" by (simp only: list.set) blast
    then show "covered j uniq'"
    proof
      assume "j \<in> set jobs"
      then show ?thesis using cov' by blast
    next
      assume "j \<in> insert job (set uniq)"
      then have c1: "covered j uniq1" using cov1 by blast
      have "\<forall>r \<in> set uniq1. covered r uniq'" using cov' by blast
      with c1 show ?thesis by (rule covered_trans)
    qed
  qed
  show ?case using eq i' sub cov by blast
qed

lemma dedup_inv_empty: "dedup_inv (Map.empty, [])"
  by (rule dedup_invI) simp_all

text \<open>
  C8. \<open>_deduplicate_jobs\<close> returns, without raising, a sublist of postings with
  pairwise different keys (lower-cased, stripped title and company) such that every
  posting of the input is represented by a retained posting of the same key whose source
  has at least its priority (linkedin 3, indeed 2, company 1, hn_jobs 1, others 0): of
  two colliding postings the one from the higher-priority source is retained. For a
  linkedin and an indeed posting of the same key this is the linkedin posting, in
  either order of arrival.
\<close>

theorem deduplicate_keeps_higher_priority:
  "\<exists>unique_jobs. deduplicate_jobs jobs = Inr unique_jobs \<and>
     distinct (map dedup_key unique_jobs) \<and> set unique_jobs \<subseteq> set jobs \<and>
     (\<forall>j \<in> set jobs. \<exists>r \<in> set unique_jobs. dedup_key r = dedup_key j \<and>
        source_priority (source j) \<le> source_priority (source r))"
proof -
  from dedup_loop_ok[OF dedup_inv_empty, of jobs] obtain seen' uniq' where
    l: "dedup_loop jobs (Map.empty, []) = Inr (seen', uniq')" and
    i': "dedup_inv (seen', uniq')" and
    sub': "set uniq' \<subseteq> set jobs \<union> set []" and
    cov': "\<forall>j \<in> set jobs \<union> set []. covered j uniq'" by blast
  have eq: "deduplicate_jobs jobs = Inr uniq'"
    using l by (simp only: deduplicate_jobs_def sum.case prod.case)
  have d: "distinct (map dedup_key uniq')" by (rule dedup_invD1[OF i'])
  have sub: "set uniq' \<subseteq> set jobs" using sub' by simp
  have cov: "\<forall>j \<in> set jobs. \<exists>r \<in> set uniq'. dedup_key r = dedup_key j \<and>
        source_priority (source j) \<le> source_priority (source r)"
    using cov' unfolding covered_def by simp
  show ?thesis using eq d sub cov by blast
qed

lemma distinct_set_singleton:
  assumes "distinct u" and "set u = {x}"
  shows "u = [x]"
proof -
  have "length u = card (set u)" using assms(1) by (rule distinct_card[symmetric])
  then have "length u = 1" using assms(2) by simp
  then obtain y where "u = [y]" by (metis One_nat_def length_0_conv length_Suc_conv)
  then show ?thesis using assms(2) by simp
qed

theorem deduplicate_keeps_higher_priority_witness:
  "deduplicate_jobs [indeed_job, linkedin_job] = Inr [linkedin_job] \<and>
   deduplicate_jobs [linkedin_job, indeed_job] = Inr [linkedin_job] \<and>
   dedup_key indeed_job = dedup_key linkedin_job \<and>
   source_priority (source linkedin_job) = 3 \<and> source_priority (source indeed_job) = 2"
proof -
  have k: "dedup_key indeed_job = dedup_key linkedin_job" by code_simp
  have p3: "source_priority (source linkedin_job) = 3" by code_simp
  have p2: "source_priority (source indeed_job) = 2" by code_simp
  have ne: "indeed_job \<noteq> linkedin_job" using p2 p3 by (metis numeral_eq_iff semiring_norm(88))
  from deduplicate_keeps_higher_priority[of "[indeed_job, linkedin_job]"] obtain u where
    u: "deduplicate_jobs [indeed_job, linkedin_job] = Inr u" and
    d: "distinct (map dedup_key u)" and
    sub: "set u \<subseteq> set [indeed_job, linkedin_job]" and
    cov: "\<forall>j \<in> set [indeed_job, linkedin_job]. \<exists>r \<in> set u. dedup_key r = dedup_key j \<and>
        source_priority (source j) \<le> source_priority (source r)" by blast
  have "linkedin_job \<in> set [indeed_job, linkedin_job]" by simp
  with cov obtain r where r: "r \<in> set u"
    "source_priority (source linkedin_job) \<le> source_priority (source r)" by blast
  have "r = indeed_job \<or> r = linkedin_job" using r(1) sub by auto
  moreover have "r \<noteq> indeed_job" using r(2) p2 p3 by auto
  ultimately have lin: "linkedin_job \<in> set u" using r(1) by blast
  have inj: "inj_on dedup_key (set u)" using d by (rule distinct_map[THEN iffD1, THEN conjunct2])
  have "indeed_job \<notin> set u"
  proof
    assume "indeed_job \<in> set u"
    with inj lin k have "indeed_job = linkedin_job" by (metis inj_onD)
    with ne show False by blast
  qed
  with sub lin have su: "set u = {linkedin_job}" by auto
  have "distinct u" using d by (rule distinct_map[THEN iffD1, THEN conjunct1])
  then have "u = [linkedin_job]" using su by (rule distinct_set_singleton)
  with u have a: "deduplicate_jobs [indeed_job, linkedin_job] = Inr [linkedin_job]" by simp
  have b: "deduplicate_jobs [linkedin_job, indeed_job] = Inr [linkedin_job]" by code_simp
  show ?thesis using a b k p3 p2 by simp
qed

section \<open>Properties of the job database\<close>

lemma job_id_row_of: "job_id (row_job (row_of now job)) = job_id job"
  by (simp add: row_of_def)

lemma insert_or_replace_same:
  "filter (\<lambda>r. job_id (row_job r) = job_id (row_job x)) (insert_or_replace x tbl) = [x]"
  by (simp add: insert_or_replace_def)

lemma insert_or_replace_others:
  "filter (\<lambda>r. job_id (row_job r) \<noteq> job_id (row_job x)) (insert_or_replace x tbl) =
   filter (\<lambda>r. job_id (row_job r) \<noteq> job_id (row_job x)) tbl"
  by (simp add: insert_or_replace_def)

text \<open>
  C9. Two calls of \<open>save_job\<close> with the same \<open>job_id\<close>, both going through: both
  return \<open>True\<close>, the table then holds exactly one row of that key, namely the row of
  the second call, and the rows of other keys are as they were.
\<close>

theorem save_job_twice_one_row:
  assumes "job_id j2 = job_id j1"
  shows "fst (save_job True t1 j1 tbl) \<and>
         fst (save_job True t2 j2 (snd (save_job True t1 j1 tbl))) \<and>
         filter (\<lambda>r. job_id (row_job r) = job_id j1)
           (snd (save_job True t2 j2 (snd (save_job True t1 j1 tbl)))) = [row_of t2 j2] \<and>
         filter (\<lambda>r. job_id (row_job r) \<noteq> job_id j1)
           (snd (save_job True t2 j2 (snd (save_job True t1 j1 tbl)))) =
         filter (\<lambda>r. job_id (row_job r) \<noteq> job_id j1) tbl"
proof -
  let ?r1 = "row_of t1 j1" and ?r2 = "row_of t2 j2"
  have k1: "job_id (row_job ?r1) = job_id j1" by (rule job_id_row_of)
  have k2: "job_id (row_job ?r2) = job_id j1" using assms by (simp only: job_id_row_of)
  have s: "snd (save_job True t2 j2 (snd (save_job True t1 j1 tbl))) =
           insert_or_replace ?r2 (insert_or_replace ?r1 tbl)"
    by (simp add: save_job_def)
  have a: "filter (\<lambda>r. job_id (row_job r) = job_id j1)
             (insert_or_replace ?r2 (insert_or_replace ?r1 tbl)) = [?r2]"
    using insert_or_replace_same[of ?r2 "insert_or_replace ?r1 tbl"] by (simp only: k2)
  have b: "filter (\<lambda>r. job_id (row_job r) \<noteq> job_id j1)
             (insert_or_replace ?r2 (insert_or_replace ?r1 tbl)) =
           filter (\<lambda>r. job_id (row_job r) \<noteq> job_id j1) tbl"
    using insert_or_replace_others[of ?r2 "insert_or_replace ?r1 tbl"]
      insert_or_replace_others[of ?r1 tbl] by (simp only: k1 k2)
  show ?thesis using a b by (simp only: s) (simp add: save_job_def)
qed

theorem save_job_twice_one_row_witness:
  "job_id rescored_older = job_id scored_older \<and>
   snd (save_job True ''2024-04-02 09:00:01'' rescored_older
          (snd (save_job True ''2024-04-02 09:00:00'' scored_older two_rows))) =
     [row_of ''2024-04-01 10:00:01'' scored_newer, row_of ''2024-04-02 09:00:01'' rescored_older] \<and>
   filter (\<lambda>r. job_id (row_job r) = job_id scored_older)
     (snd (save_job True ''2024-04-02 09:00:01'' rescored_older
          (snd (save_job True ''2024-04-02 09:00:00'' scored_older two_rows)))) =
     [row_of ''2024-04-02 09:00:01'' rescored_older]"
proof -
  have h: "job_id rescored_older = job_id scored_older" by code_simp
  have e: "snd (save_job True ''2024-04-02 09:00:01'' rescored_older
          (snd (save_job True ''2024-04-02 09:00:00'' scored_older two_rows))) =
     [row_of ''2024-04-01 10:00:01'' scored_newer, row_of ''2024-04-02 09:00:01'' rescored_older]"
    by code_simp
  show ?thesis
    using save_job_twice_one_row[where ?j1.0 = scored_older and ?j2.0 = rescored_older
        and ?t1.0 = "''2024-04-02 09:00:00''" and ?t2.0 = "''2024-04-02 09:00:01''"
        and tbl = two_rows, OF h] h e
    by simp
qed

text \<open>Saving the same record again at the same time changes nothing.\<close>

lemma save_job_idempotent:
  "snd (save_job True now job (snd (save_job True now job tbl))) = snd (save_job True now job tbl)"
  by (simp add: save_job_def insert_or_replace_def)

lemma lex_descending:
  fixes f :: "'a \<Rightarrow> 'b::linorder" and g :: "'a \<Rightarrow> 'c::linorder"
  assumes "sorted_wrt (\<lambda>a b. (f b, g b) \<le> (f a, g a)) xs"
  shows "sorted_wrt (\<lambda>a b. f b < f a \<or> (f b = f a \<and> g b \<le> g a)) xs"
  using assms by (rule sorted_wrt_mono_rel[rotated]) (auto simp: less_eq_prod_def)

lemma order_by_sorted:
  "sorted_wrt (\<lambda>a b. (relevance_score (row_job b), discovered_at (row_job b)) \<le>
                      (relevance_score (row_job a), discovered_at (row_job a)))
     (order_by_score_and_time rows)"
proof -
  let ?k = "\<lambda>r. (relevance_score (row_job r), discovered_at (row_job r))"
  have "sorted (map ?k (sort_key ?k (rev rows)))" by (rule sorted_sort_key)
  then have "sorted_wrt (\<lambda>a b. ?k a \<le> ?k b) (sort_key ?k (rev rows))"
    by (simp only: sorted_map)
  then show ?thesis
    unfolding order_by_score_and_time_def by (simp only: sorted_wrt_rev)
qed

lemma order_by_set: "set (order_by_score_and_time rows) = set rows"
  by (simp add: order_by_score_and_time_def)

lemma order_by_length: "length (order_by_score_and_time rows) = length rows"
  by (simp add: order_by_score_and_time_def)


lemma order_by_descending:
  "sorted_wrt (\<lambda>a b. relevance_score (row_job b) < relevance_score (row_job a) \<or>
                      (relevance_score (row_job b) = relevance_score (row_job a) \<and> discovered_at (row_job b) \<le> discovered_at (row_job a)))
     (order_by_score_and_time rows)"
  using order_by_sorted[of rows]
  by (rule lex_descending)

lemma get_jobs_limit_nonpositive: "\<forall>n. n \<le> 0 \<longrightarrow> get_jobs_by_status ok st (Some n) tbl = get_jobs_by_status ok st None tbl"
    by (auto simp: get_jobs_by_status_def Let_def)

lemma get_jobs_limit_positive: "\<forall>n. 0 < n \<longrightarrow> get_jobs_by_status ok st (Some n) tbl =
           take (nat n) (get_jobs_by_status ok st None tbl)"
    by (auto simp: get_jobs_by_status_def Let_def take_map)

lemma get_jobs_all_set: "set (get_jobs_by_status True st None tbl) = row_job ` {r \<in> set tbl. status (row_job r) = st}"
    by (simp add: get_jobs_by_status_def order_by_set)
lemma get_jobs_all_length: "length (get_jobs_by_status True st None tbl) = length (filter (\<lambda>r. status (row_job r) = st) tbl)"
    by (simp add: get_jobs_by_status_def order_by_length)

lemma get_jobs_cases:
  "get_jobs_by_status ok st limit tbl = [] \<or>
   (\<exists>k. get_jobs_by_status ok st limit tbl =
      map row_job (take k (order_by_score_and_time (filter (\<lambda>r. status (row_job r) = st) tbl))))"
proof (cases ok)
  case False
  then show ?thesis by (simp add: get_jobs_by_status_def)
next
  case True
  let ?rows = "order_by_score_and_time (filter (\<lambda>r. status (row_job r) = st) tbl)"
  have all: "?rows = take (length ?rows) ?rows" by simp
  show ?thesis
  proof (cases limit)
    case None
    with True have "get_jobs_by_status ok st limit tbl = map row_job ?rows"
      by (simp add: get_jobs_by_status_def)
    then show ?thesis using all by metis
  next
    case (Some n)
    with True have "get_jobs_by_status ok st limit tbl = map row_job ?rows \<or>
        get_jobs_by_status ok st limit tbl = map row_job (take (nat n) ?rows)"
      by (auto simp: get_jobs_by_status_def Let_def)
    then show ?thesis using all by metis
  qed
qed

lemma get_jobs_sorted_of_status:
  "sorted_wrt (\<lambda>a b. relevance_score b < relevance_score a \<or>
                      (relevance_score b = relevance_score a \<and> discovered_at b \<le> discovered_at a))
     (get_jobs_by_status ok st limit tbl) \<and>
   (\<forall>j \<in> set (get_jobs_by_status ok st limit tbl). status j = st \<and> j \<in> row_job ` set tbl)"
proof -
  let ?rows = "order_by_score_and_time (filter (\<lambda>r. status (row_job r) = st) tbl)"
  let ?P = "\<lambda>a b. relevance_score b < relevance_score a \<or>
                      (relevance_score b = relevance_score a \<and> discovered_at b \<le> discovered_at a)"
  from get_jobs_cases[of ok st limit tbl] show ?thesis
  proof
    assume "get_jobs_by_status ok st limit tbl = []"
    then show ?thesis by simp
  next
    assume "\<exists>k. get_jobs_by_status ok st limit tbl = map row_job (take k ?rows)"
    then obtain k where g: "get_jobs_by_status ok st limit tbl = map row_job (take k ?rows)" by blast
    have "sorted_wrt (\<lambda>a b. ?P (row_job a) (row_job b)) ?rows" by (rule order_by_descending)
    then have "sorted_wrt (\<lambda>a b. ?P (row_job a) (row_job b)) (take k ?rows)"
      by (rule sorted_wrt_take)
    then have 1: "sorted_wrt ?P (map row_job (take k ?rows))" by (simp only: sorted_wrt_map)
    have "set (take k ?rows) \<subseteq> set ?rows" by (rule set_take_subset)
    then have "set (take k ?rows) \<subseteq> {r \<in> set tbl. status (row_job r) = st}"
      by (simp only: order_by_set set_filter)
    then have 2: "\<forall>j \<in> set (map row_job (take k ?rows)). status j = st \<and> j \<in> row_job ` set tbl"
      by (simp only: set_map) blast
    show ?thesis using 1 2 by (simp only: g)
  qed
qed

text \<open>
  C10 (as amended). \<open>get_jobs_by_status\<close> returns stored records of the given status
  only, ordered by score descending and, among records of equal score, by discovery time
  descending (newest first); without a limit, or with limit 0 or negative, these are all
  the stored records of that status; with a positive limit they are the first \<open>limit\<close>
  of them.
\<close>

theorem get_jobs_by_status_order:
  "sorted_wrt (\<lambda>a b. relevance_score b < relevance_score a \<or>
                      (relevance_score b = relevance_score a \<and> discovered_at b \<le> discovered_at a))
     (get_jobs_by_status ok st limit tbl) \<and>
   (\<forall>j \<in> set (get_jobs_by_status ok st limit tbl). status j = st \<and> j \<in> row_job ` set tbl) \<and>
   set (get_jobs_by_status True st None tbl) = row_job ` {r \<in> set tbl. status (row_job r) = st} \<and>
   length (get_jobs_by_status True st None tbl) = length (filter (\<lambda>r. status (row_job r) = st) tbl) \<and>
   (\<forall>n. n \<le> 0 \<longrightarrow> get_jobs_by_status ok st (Some n) tbl = get_jobs_by_status ok st None tbl) \<and>
   (\<forall>n. 0 < n \<longrightarrow> get_jobs_by_status ok st (Some n) tbl =
           take (nat n) (get_jobs_by_status ok st None tbl))"
  by (intro conjI get_jobs_sorted_of_status[THEN conjunct1] get_jobs_sorted_of_status[THEN conjunct2]
      get_jobs_all_set get_jobs_all_length get_jobs_limit_nonpositive get_jobs_limit_positive)

theorem get_jobs_by_status_order_witness:
  "get_jobs_by_status True ''discovered'' (Some 1) two_rows = [scored_newer] \<and>
   get_jobs_by_status True ''discovered'' (Some 0) two_rows = [scored_newer, scored_older] \<and>
   get_jobs_by_status True ''applied'' None two_rows = []"
proof -
  have n: "get_jobs_by_status True ''discovered'' None two_rows = [scored_newer, scored_older]"
    by code_simp
  have a: "get_jobs_by_status True ''applied'' None two_rows = []" by code_simp
  note t = get_jobs_by_status_order[where ok = True and st = "''discovered''" and tbl = two_rows
      and limit = None]
  note e = t[THEN conjunct2, THEN conjunct2, THEN conjunct2, THEN conjunct2, THEN conjunct1,
      rule_format, of 0]
  note f = t[THEN conjunct2, THEN conjunct2, THEN conjunct2, THEN conjunct2, THEN conjunct2,
      rule_format, of 1]
  have 1: "get_jobs_by_status True ''discovered'' (Some 1) two_rows = [scored_newer]"
    using f n by simp
  have 0: "get_jobs_by_status True ''discovered'' (Some 0) two_rows = [scored_newer, scored_older]"
    using e n by simp
  show ?thesis using 1 0 a by simp
qed

text \<open>
  C10 as stated fails: of two stored records of equal score the one discovered later
  comes first, so the tiebreak is not ascending discovery time.
\<close>

theorem get_jobs_by_status_counterexample:
  "relevance_score scored_older = relevance_score scored_newer \<and>
   discovered_at scored_older < discovered_at scored_newer \<and>
   get_jobs_by_status True ''discovered'' (Some 10) two_rows = [scored_newer, scored_older]"
  by code_simp

section \<open>Task failures in the parallel phases\<close>

lemma gpt4_call_result:
  "fst (sophisticated_gpt4_call outcome task_name calls) = task_result outcome task_name"
  by (simp add: sophisticated_gpt4_call_def task_result_def split: sum.splits option.splits)

lemma research_phase_results:
  "fst (parallel_deep_research_phase api calls) =
     \<lparr> r_company_intelligence = task_result (api ''company_intelligence'') ''company_intelligence'',
       r_competitive_analysis = task_result (api ''competitive_analysis'') ''competitive_analysis'',
       r_technical_alignment = task_result (api ''technical_alignment'') ''technical_alignment'',
       r_strategic_positioning = task_result (api ''strategic_positioning'') ''strategic_positioning'' \<rparr>"
  by (simp add: parallel_deep_research_phase_def split_beta Let_def gpt4_call_result)

lemma content_phase_results:
  "fst (parallel_sophisticated_content_generation api calls) =
     \<lparr> c_cover_letter = task_result (api ''sophisticated_cover_letter'') ''sophisticated_cover_letter'',
       c_executive_summary = task_result (api ''executive_summary'') ''executive_summary'',
       c_interview_preparation = task_result (api ''advanced_interview_prep'') ''advanced_interview_prep'',
       c_success_strategy = task_result (api ''success_strategy'') ''success_strategy'',
       c_career_narrative = task_result (api ''career_narrative'') ''career_narrative'' \<rparr>"
  by (simp add: parallel_sophisticated_content_generation_def split_beta Let_def gpt4_call_result)

lemma task_field_generate:
  assumes "task_name \<in> set (research_tasks @ content_tasks)"
  shows "task_field task_name
           (fst (generate_sophisticated_application job_title company_name api elapsed today calls))
         = task_result (api task_name) task_name"
proof -
  have cases: "task_name = ''company_intelligence'' \<or> task_name = ''competitive_analysis''
      \<or> task_name = ''technical_alignment'' \<or> task_name = ''strategic_positioning''
      \<or> task_name = ''sophisticated_cover_letter'' \<or> task_name = ''executive_summary''
      \<or> task_name = ''advanced_interview_prep'' \<or> task_name = ''success_strategy''
      \<or> task_name = ''career_narrative''"
    using assms by (simp add: research_tasks_def content_tasks_def)
  have pkg: "fst (generate_sophisticated_application job_title company_name api elapsed today calls)
      = integrate_sophisticated_application job_title company_name
          (fst (parallel_deep_research_phase api calls))
          (fst (parallel_sophisticated_content_generation api
                  (snd (parallel_deep_research_phase api calls))))
          elapsed today
          (snd (parallel_sophisticated_content_generation api
                  (snd (parallel_deep_research_phase api calls))))"
    by (simp add: generate_sophisticated_application_def split_beta Let_def)
  show ?thesis
    unfolding pkg research_phase_results content_phase_results
    using cases
    by (elim disjE) (simp_all add: task_field_def integrate_sophisticated_application_def)
qed

text \<open>
  C3. A task of a parallel phase whose request raises contributes the marked fallback text
  that names the task; every other task of either phase whose request answers contributes
  its own stripped content; and the run goes on through the next phase to the assembled
  package, which holds both.
\<close>

theorem failed_task_is_isolated:
  assumes "failed \<in> set (research_tasks @ content_tasks)"
    and "api failed = Inl e"
    and "other \<in> set (research_tasks @ content_tasks)"
    and "api other = Inr (Some content)"
  shows "task_field failed
           (fst (generate_sophisticated_application job_title company_name api elapsed today calls))
           = ''['' @ failed @ '' generation failed - implementing fallback strategy]''
       \<and> task_field other
           (fst (generate_sophisticated_application job_title company_name api elapsed today calls))
           = strip content"
  using task_field_generate[OF assms(1)] task_field_generate[OF assms(3)] assms(2) assms(4)
  by (simp add: task_result_def fallback_text_def)

theorem failed_task_is_isolated_witness:
  "task_field ''technical_alignment''
     (fst (generate_sophisticated_application ''ML Engineer'' ''Acme'' one_failure_api 40
             ''2024-05-01'' 0))
     = ''[technical_alignment generation failed - implementing fallback strategy]''
   \<and> task_field ''sophisticated_cover_letter''
     (fst (generate_sophisticated_application ''ML Engineer'' ''Acme'' one_failure_api 40
             ''2024-05-01'' 0))
     = ''analysis of sophisticated_cover_letter''"
proof -
  have a: "''technical_alignment'' \<in> set (research_tasks @ content_tasks)"
    by (simp add: research_tasks_def)
  have b: "one_failure_api ''technical_alignment'' = Inl (Exception ''Request timed out.'')"
    by (simp add: one_failure_api_def)
  have c: "''sophisticated_cover_letter'' \<in> set (research_tasks @ content_tasks)"
    by (simp add: content_tasks_def)
  have d: "one_failure_api ''sophisticated_cover_letter''
      = Inr (Some '' analysis of sophisticated_cover_letter '')"
    by (simp add: one_failure_api_def)
  have s: "strip '' analysis of sophisticated_cover_letter '' = ''analysis of sophisticated_cover_letter''"
    by code_simp
  show ?thesis
    using failed_task_is_isolated[where failed = "''technical_alignment''"
        and other = "''sophisticated_cover_letter''" and api = one_failure_api, OF a b c d]
    by (simp add: s)
qed

section \<open>Properties of the application engine\<close>

lemma gather_given_job_data:
  "job_data \<noteq> [] \<Longrightarrow>
   gather_job_data job_url (Some job_data) company_name job_title = Inr (Some job_data)"
  by (simp add: gather_job_data_def truthy_dict_def)


lemma init_with_key:
  assumes "truthy_str openai_api_key \<or> truthy_str found"
  shows "ai_mode (init openai_api_key found) \<and> parallel_mode (init openai_api_key found)
       \<and> \<not> has_ai_engine (init openai_api_key found)
       \<and> \<not> has_template_components (init openai_api_key found)"
  using assms by (auto simp add: init_def Let_def)


text \<open>
  When the AI path itself fails, its exception is the result; the template path is not
  tried.
\<close>

lemma ai_failure_propagates:
  assumes "ai_mode eng" and "parallel_mode eng" and "has_ai_engine eng" and "job_data \<noteq> []"
    and "parallel_attempt eng w job_data = Inl e" and "ai_generation w = Inl e'"
  shows "process_job_application eng w job_url (Some job_data) company_name job_title = Inl e'"
  using assms
  by (simp add: process_job_application_def gather_given_job_data truthy_dict_def
      process_with_parallel_ai_engine_def process_with_ai_engine_def)







end
